theory Spec2Isabelle
  imports
    Main
    "HOL-Library.AList"
    "HOL-Library.Multiset"
    "HOL-Library.List_Lexorder"
    "HOL-Library.Product_Lexorder"
begin

section \<open>Python values: strings, exceptions, dictionaries\<close>

text \<open>
  A Python \<^verbatim>\<open>str\<close> is a sequence of Unicode code points, and \<^verbatim>\<open>len\<close>,
  indexing, comparison and the \<^verbatim>\<open>re\<close> module all work on code points. A string is
  therefore a list of code points (natural numbers); \<open>u\<close> turns an Isabelle string
  literal into one. Strings compare lexicographically by code point, which is the order
  of \<^theory_text>\<open>List_Lexorder\<close> on \<open>nat list\<close>.
\<close>

type_synonym uchar = nat
type_synonym ustr = "uchar list"

definition u :: "string \<Rightarrow> ustr" where
  "u cs = map of_char cs"

text \<open>
  White space (\<^verbatim>\<open>str.isspace\<close>, \<^verbatim>\<open>str.strip\<close>, and \<^verbatim>\<open>\s\<close> of a \<^verbatim>\<open>str\<close>
  pattern) is the list of CPython, and \<^verbatim>\<open>[a-zA-Z]\<close> is the ASCII letters.
\<close>

definition is_space :: "uchar \<Rightarrow> bool" where
  "is_space c \<longleftrightarrow>
     (9 \<le> c \<and> c \<le> 13) \<or> (28 \<le> c \<and> c \<le> 32) \<or> c = 133 \<or> c = 160 \<or> c = 5760 \<or>
     (8192 \<le> c \<and> c \<le> 8202) \<or> c = 8232 \<or> c = 8233 \<or> c = 8239 \<or> c = 8287 \<or> c = 12288"

definition is_ascii_letter :: "uchar \<Rightarrow> bool" where
  "is_ascii_letter c \<longleftrightarrow> (65 \<le> c \<and> c \<le> 90) \<or> (97 \<le> c \<and> c \<le> 122)"

text \<open>
  The other character classes come from the Unicode database of the interpreter, which
  is no part of the repository and changes with the interpreter's version: they are
  parameters, as is the interpreter's limit on the digits \<^verbatim>\<open>int\<close> converts
  (\<^verbatim>\<open>sys.int_max_str_digits\<close>: 4300 by default since Python 3.11, 0 for no limit).
  \<^item> \<open>uc_decimal c\<close> is the value of \<open>c\<close> as a decimal digit (category Nd), if it is one:
    the characters \<^verbatim>\<open>\d\<close> matches and \<^verbatim>\<open>int\<close> reads, in every script;
  \<^item> \<open>uc_digit\<close> is the characters of \<^verbatim>\<open>str.isdigit\<close>: the decimal digits and the
    digits that are no decimals, such as superscript two;
  \<^item> \<open>uc_alpha\<close> is the characters of \<^verbatim>\<open>str.isalpha\<close>;
  \<^item> \<open>uc_printable\<close> is the characters of \<^verbatim>\<open>str.isprintable\<close>, which \<^verbatim>\<open>repr\<close>
    leaves as they are.

  \<^verbatim>\<open>Path(name).stem\<close> of \<^verbatim>\<open>pathlib\<close>, which depends on the operating system and on
  the version of the library, is the parameter \<open>path_stem\<close>.
\<close>

record runtime =
  uc_decimal :: "uchar \<Rightarrow> nat option"
  uc_digit :: "uchar \<Rightarrow> bool"
  uc_alpha :: "uchar \<Rightarrow> bool"
  uc_printable :: "uchar \<Rightarrow> bool"
  int_max_str_digits :: nat
  path_stem :: "ustr \<Rightarrow> ustr"

definition is_decimal :: "runtime \<Rightarrow> uchar \<Rightarrow> bool" where
  "is_decimal R c \<longleftrightarrow> uc_decimal R c \<noteq> None"

definition decimal_value :: "runtime \<Rightarrow> uchar \<Rightarrow> int" where
  "decimal_value R c = (case uc_decimal R c of Some d \<Rightarrow> int d | None \<Rightarrow> 0)"

text \<open>\<^verbatim>\<open>s.isdigit()\<close>: at least one character, and every character a digit.\<close>

definition isdigit :: "runtime \<Rightarrow> ustr \<Rightarrow> bool" where
  "isdigit R s \<longleftrightarrow> s \<noteq> [] \<and> list_all (uc_digit R) s"

definition isalpha :: "runtime \<Rightarrow> ustr \<Rightarrow> bool" where
  "isalpha R s \<longleftrightarrow> s \<noteq> [] \<and> list_all (uc_alpha R) s"

text \<open>
  Exceptions are values. \<open>ValueError\<close> carries its message; \<open>EnvError\<close> is any
  exception raised by the environment (the network client, the file system), with its
  message.
\<close>

datatype exn = ValueError ustr | EnvError ustr

fun str_exn :: "exn \<Rightarrow> ustr" where
  "str_exn (ValueError msg) = msg"
| "str_exn (EnvError msg) = msg"

text \<open>\<^verbatim>\<open>str(n)\<close> of a natural number, and \<open>k\<close> hexadecimal digits of a number.\<close>

fun str_nat :: "nat \<Rightarrow> ustr" where
  "str_nat n = (if n < 10 then [48 + n] else str_nat (n div 10) @ [48 + n mod 10])"

definition hex_digit :: "nat \<Rightarrow> uchar" where
  "hex_digit d = (if d < 10 then 48 + d else 87 + d)"

definition hex_fixed :: "nat \<Rightarrow> nat \<Rightarrow> ustr" where
  "hex_fixed k n = map (\<lambda>i. hex_digit ((n div 16 ^ i) mod 16)) (rev [0..<k])"

text \<open>
  \<^verbatim>\<open>repr(s)\<close> of a string: in double quotes when the string has a single quote and no
  double quote, in single quotes otherwise; the quote and the backslash escaped, tab,
  newline and carriage return as \<^verbatim>\<open>\t\<close>, \<^verbatim>\<open>\n\<close>, \<^verbatim>\<open>\r\<close>, the other control
  characters and the characters that are not printable as \<^verbatim>\<open>\x\<close>, \<^verbatim>\<open>\u\<close> or
  \<^verbatim>\<open>\U\<close> escapes.
\<close>

definition repr_char :: "runtime \<Rightarrow> uchar \<Rightarrow> uchar \<Rightarrow> ustr" where
  "repr_char R quote c =
     (if c = quote \<or> c = 92 then [92, c]
      else if c = 9 then [92, 116]
      else if c = 10 then [92, 110]
      else if c = 13 then [92, 114]
      else if c < 32 \<or> c = 127 then [92, 120] @ hex_fixed 2 c
      else if c < 127 then [c]
      else if uc_printable R c then [c]
      else if c \<le> 255 then [92, 120] @ hex_fixed 2 c
      else if c \<le> 65535 then [92, 117] @ hex_fixed 4 c
      else [92, 85] @ hex_fixed 8 c)"

definition py_repr :: "runtime \<Rightarrow> ustr \<Rightarrow> ustr" where
  "py_repr R s =
     (let quote = (if 39 \<in> set s \<and> 34 \<notin> set s then 34 else 39)
      in [quote] @ concat (map (repr_char R quote) s) @ [quote])"

text \<open>
  \<^verbatim>\<open>int(s)\<close> as the source calls it: on a string of \<^verbatim>\<open>isdigit\<close> characters or on a
  \<^verbatim>\<open>\d+\<close> group. CPython counts the decimal digits the string starts with and raises
  \<^verbatim>\<open>ValueError\<close> when they are more than the limit; then it raises \<^verbatim>\<open>ValueError\<close>
  unless the whole string is decimal digits, and at least one (the message shows at most
  200 characters of the \<^verbatim>\<open>repr\<close>). (The sign, the underscores and the surrounding
  white space that \<^verbatim>\<open>int\<close> accepts as well are neither \<^verbatim>\<open>isdigit\<close> characters nor
  matched by \<^verbatim>\<open>\d\<close>, so no call of the source passes them.)
\<close>

definition digits_value :: "runtime \<Rightarrow> ustr \<Rightarrow> int" where
  "digits_value R s = foldl (\<lambda>n c. 10 * n + decimal_value R c) 0 s"

definition over_limit :: "runtime \<Rightarrow> nat \<Rightarrow> bool" where
  "over_limit R digits \<longleftrightarrow> int_max_str_digits R \<noteq> 0 \<and> int_max_str_digits R < digits"

definition py_int :: "runtime \<Rightarrow> ustr \<Rightarrow> exn + int" where
  "py_int R s =
     (let digits = length (takeWhile (is_decimal R) s) in
      if over_limit R digits then
        Inl (ValueError (u ''Exceeds the limit ('' @ str_nat (int_max_str_digits R) @
          u '' digits) for integer string conversion: value has '' @ str_nat digits @
          u '' digits; use sys.set_int_max_str_digits() to increase the limit''))
      else if s \<noteq> [] \<and> list_all (is_decimal R) s then Inr (digits_value R s)
      else Inl (ValueError (u ''invalid literal for int() with base 10: '' @ take 200 (py_repr R s))))"

text \<open>
  What the tables of every CPython say about the ASCII characters, and what every
  CPython allows as the limit: the ASCII decimal digits are \<^verbatim>\<open>0\<close> to \<^verbatim>\<open>9\<close> with
  their values, they are the ASCII \<^verbatim>\<open>isdigit\<close> characters, the ASCII letters are the
  ASCII \<^verbatim>\<open>isalpha\<close> characters, and the limit is 0 or at least 640.
\<close>

definition ascii_standard :: "runtime \<Rightarrow> bool" where
  "ascii_standard R \<longleftrightarrow>
     (\<forall>c < 128. uc_decimal R c = (if 48 \<le> c \<and> c \<le> 57 then Some (c - 48) else None)) \<and>
     (\<forall>c < 128. uc_digit R c = (48 \<le> c \<and> c \<le> 57)) \<and>
     (\<forall>c < 128. uc_alpha R c = is_ascii_letter c) \<and>
     (int_max_str_digits R = 0 \<or> 640 \<le> int_max_str_digits R)"

text \<open>
  \<^verbatim>\<open>PurePosixPath(name).stem\<close> of Python 3.13, on a file name without a slash: the
  name up to its last dot, when that dot is neither the first nor the last character.
\<close>

definition bare_name_stem :: "ustr \<Rightarrow> ustr" where
  "bare_name_stem name =
     (let after_dot = length (takeWhile (\<lambda>c. c \<noteq> 46) (rev name)) in
      if after_dot = length name then name
      else
        (let i = length name - after_dot - 1
         in if 0 < i \<and> i < length name - 1 then take i name else name))"

text \<open>
  A runtime for the examples: the tables of Unicode cut off at U+00FF (above, no
  character is given a class), the default limit, and the stem of a bare file name. It
  stands for the interpreter only on strings below U+0100 without a slash.
\<close>

definition latin1_runtime :: runtime where
  "latin1_runtime =
     \<lparr>uc_decimal = (\<lambda>c. if 48 \<le> c \<and> c \<le> 57 then Some (c - 48) else None),
      uc_digit = (\<lambda>c. (48 \<le> c \<and> c \<le> 57) \<or> c = 178 \<or> c = 179 \<or> c = 185),
      uc_alpha = (\<lambda>c. is_ascii_letter c \<or> c = 170 \<or> c = 181 \<or> c = 186 \<or>
                    (192 \<le> c \<and> c \<le> 214) \<or> (216 \<le> c \<and> c \<le> 246) \<or> (248 \<le> c \<and> c \<le> 255)),
      uc_printable = (\<lambda>c. (32 \<le> c \<and> c < 127) \<or> (161 \<le> c \<and> c \<le> 255 \<and> c \<noteq> 173)),
      int_max_str_digits = 4300,
      path_stem = bare_name_stem\<rparr>"

text \<open>
  A Python \<^verbatim>\<open>dict\<close> keeps its keys in insertion order, and assigning to a key that is
  present keeps the key's place: an association list with \<open>AList.update\<close>. A row of a
  table is a dictionary from field names to cell texts.
\<close>

type_synonym ('k, 'v) dict = "('k \<times> 'v) list"
type_synonym row = "(ustr, ustr) dict"

definition dict_get :: "('k, 'v) dict \<Rightarrow> 'k \<Rightarrow> 'v \<Rightarrow> 'v" where
  "dict_get d k dflt = (case map_of d k of Some v \<Rightarrow> v | None \<Rightarrow> dflt)"

definition dict_has :: "('k, 'v) dict \<Rightarrow> 'k \<Rightarrow> bool" where
  "dict_has d k \<longleftrightarrow> map_of d k \<noteq> None"

text \<open>Mapping a function that may raise over a list stops at the first exception.\<close>

fun map_exn :: "('a \<Rightarrow> exn + 'b) \<Rightarrow> 'a list \<Rightarrow> exn + 'b list" where
  "map_exn f [] = Inr []"
| "map_exn f (x # xs) =
     (case f x of
        Inl e \<Rightarrow> Inl e
      | Inr y \<Rightarrow> (case map_exn f xs of Inl e \<Rightarrow> Inl e | Inr ys \<Rightarrow> Inr (y # ys)))"

section \<open>Regular expressions\<close>

text \<open>
  The patterns of the source, as data, and the backtracking matcher of \<^verbatim>\<open>re\<close> for the
  constructs they use: a character of a class, sequence, ordered alternative, greedy
  (\<open>Star True\<close>) and lazy (\<open>Star False\<close>) repetition, capture group, \<^verbatim>\<open>^\<close>, \<^verbatim>\<open>$\<close>
  (without \<^verbatim>\<open>MULTILINE\<close>: at the end, or before a final newline) and lookahead.
  \<open>rx p s r c k\<close> matches \<open>p\<close> at the suffix \<open>r\<close> of the subject \<open>s\<close> with the groups
  \<open>c\<close> and hands what is left to the continuation \<open>k\<close>; when \<open>k\<close> fails the matcher
  backtracks into the next alternative, in the order of \<^verbatim>\<open>re\<close>. A repetition goes round
  again only after an iteration that consumed a character; every repeated pattern of the
  source consumes one.
\<close>

datatype re =
    Chr "uchar \<Rightarrow> bool"
  | Eps
  | Seq re re
  | Alt re re
  | Star bool re
  | Grp nat re
  | Bol
  | Eol
  | Look re

type_synonym groups = "nat \<Rightarrow> ustr option"
type_synonym rmatch = "ustr \<times> groups"
type_synonym cont = "ustr \<Rightarrow> groups \<Rightarrow> rmatch option"

function (sequential) rx :: "re \<Rightarrow> ustr \<Rightarrow> ustr \<Rightarrow> groups \<Rightarrow> cont \<Rightarrow> rmatch option" where
  "rx (Chr P) s [] c k = None"
| "rx (Chr P) s (x # xs) c k = (if P x then k xs c else None)"
| "rx Eps s r c k = k r c"
| "rx (Seq a b) s r c k = rx a s r c (\<lambda>r' c'. rx b s r' c' k)"
| "rx (Alt a b) s r c k = (case rx a s r c k of Some v \<Rightarrow> Some v | None \<Rightarrow> rx b s r c k)"
| "rx (Star True a) s r c k =
     (case rx a s r c (\<lambda>r' c'. if length r' < length r then rx (Star True a) s r' c' k else None) of
        Some v \<Rightarrow> Some v
      | None \<Rightarrow> k r c)"
| "rx (Star False a) s r c k =
     (case k r c of
        Some v \<Rightarrow> Some v
      | None \<Rightarrow>
          rx a s r c (\<lambda>r' c'. if length r' < length r then rx (Star False a) s r' c' k else None))"
| "rx (Grp n a) s r c k =
     rx a s r c (\<lambda>r' c'. k r' (c'(n := Some (take (length r - length r') r))))"
| "rx Bol s r c k = (if length r = length s then k r c else None)"
| "rx Eol s r c k = (if r = [] \<or> r = [10] then k r c else None)"
| "rx (Look a) s r c k =
     (case rx a s r c (\<lambda>r' c'. Some (r', c')) of Some (_, c') \<Rightarrow> k r c' | None \<Rightarrow> None)"
  by pat_completeness auto
termination
  by (relation "inv_image (measure size <*lex*> measure length) (\<lambda>(a, s, r, c, k). (a, r))") auto

text \<open>Pattern syntax: a literal character, a literal string, \<^verbatim>\<open>p+\<close>, \<^verbatim>\<open>p+?\<close>, \<^verbatim>\<open>p?\<close>.\<close>

definition Lit :: "uchar \<Rightarrow> re" where
  "Lit x = Chr (\<lambda>y. y = x)"

definition Str :: "ustr \<Rightarrow> re" where
  "Str t = foldr (\<lambda>x p. Seq (Lit x) p) t Eps"

definition Plus :: "bool \<Rightarrow> re \<Rightarrow> re" where
  "Plus greedy p = Seq p (Star greedy p)"

definition Opt :: "re \<Rightarrow> re" where
  "Opt p = Alt p Eps"

text \<open>
  A match is what follows it in the subject (so \<^verbatim>\<open>string[m.end():]\<close>) and its groups.
  \<^verbatim>\<open>re.match\<close> anchors a pattern at the start of the string only; \<^verbatim>\<open>re.fullmatch\<close>
  at both ends.
\<close>

definition no_groups :: groups where
  "no_groups = (\<lambda>_. None)"

definition re_match :: "re \<Rightarrow> ustr \<Rightarrow> rmatch option" where
  "re_match p s = rx p s s no_groups (\<lambda>r c. Some (r, c))"

definition re_fullmatch :: "re \<Rightarrow> ustr \<Rightarrow> rmatch option" where
  "re_fullmatch p s = rx p s s no_groups (\<lambda>r c. if r = [] then Some (r, c) else None)"

section \<open>Sorting by food code\<close>

text \<open>
  \<^verbatim>\<open>get_sort_key\<close> of \<^verbatim>\<open>sort_food_data_by_code\<close>. The pattern is
  \<^verbatim>\<open>(\d+)([a-zA-Z]*)\<close>, used with \<^verbatim>\<open>re.match\<close>.
\<close>

definition sort_key_pattern :: "runtime \<Rightarrow> re" where
  "sort_key_pattern R =
     Seq (Grp 1 (Plus True (Chr (is_decimal R)))) (Grp 2 (Star True (Chr is_ascii_letter)))"

text \<open>
  \<^verbatim>\<open>m.group(n)\<close>, for a group that took part in the match; no pattern of the source
  reads a group that can stay out of a match.
\<close>

definition group_str :: "groups \<Rightarrow> nat \<Rightarrow> ustr" where
  "group_str c n = (case c n of Some t \<Rightarrow> t | None \<Rightarrow> [])"

definition get_sort_key :: "runtime \<Rightarrow> row \<Rightarrow> exn + (int \<times> ustr)" where
  "get_sort_key R item =
     (let food_code = dict_get item (u ''foodCode'') (u ''0'') in
      if isdigit R food_code then
        (case py_int R food_code of Inl e \<Rightarrow> Inl e | Inr n \<Rightarrow> Inr (n, []))
      else
        (case re_match (sort_key_pattern R) food_code of
           Some (_, c) \<Rightarrow>
             (case py_int R (group_str c 1) of Inl e \<Rightarrow> Inl e | Inr n \<Rightarrow> Inr (n, group_str c 2))
         | None \<Rightarrow> Inr (0, food_code)))"

text \<open>
  \<^verbatim>\<open>sorted(data, key=get_sort_key)\<close> computes the key of every item, in order, and then
  sorts the items stably by their keys; tuples compare lexicographically.
\<close>

definition sort_food_data_by_code :: "runtime \<Rightarrow> row list \<Rightarrow> exn + row list" where
  "sort_food_data_by_code R data =
     (case map_exn (get_sort_key R) data of
        Inl e \<Rightarrow> Inl e
      | Inr keys \<Rightarrow> Inr (map snd (sort_key fst (zip keys data))))"

text \<open>The food code a record is sorted by: \<^verbatim>\<open>item.get("foodCode", "0")\<close>.\<close>

definition food_code_of :: "row \<Rightarrow> ustr" where
  "food_code_of item = dict_get item (u ''foodCode'') (u ''0'')"

definition code_row :: "string \<Rightarrow> row" where
  "code_row s = [(u ''foodCode'', u s)]"

text \<open>
  The sort key as the specification words it: a purely numeric code has the key (value,
  empty string); a code that as a whole is digits followed by letters has the key (value
  of the digits, the letters); any other code has the key (0, the code).
\<close>

definition spec_sort_key :: "runtime \<Rightarrow> ustr \<Rightarrow> int \<times> ustr" where
  "spec_sort_key R s =
     (if s \<noteq> [] \<and> list_all (is_decimal R) s then (digits_value R s, [])
      else if takeWhile (is_decimal R) s \<noteq> [] \<and> list_all is_ascii_letter (dropWhile (is_decimal R) s)
        then (digits_value R (takeWhile (is_decimal R) s), dropWhile (is_decimal R) s)
      else (0, s))"

text \<open>
  The sort key the code computes: a code that starts with a decimal digit has the key
  (value of its leading digits, the letters right after them), whatever follows the
  letters; any other code has the key (0, the code).
\<close>

definition prefix_sort_key :: "runtime \<Rightarrow> ustr \<Rightarrow> int \<times> ustr" where
  "prefix_sort_key R s =
     (if takeWhile (is_decimal R) s \<noteq> [] then
        (digits_value R (takeWhile (is_decimal R) s),
         takeWhile is_ascii_letter (dropWhile (is_decimal R) s))
      else (0, s))"

text \<open>
  When \<^verbatim>\<open>int\<close> reads the digits of a code: a code of \<^verbatim>\<open>isdigit\<close> characters is all
  decimal digits, and the decimal digits the code starts with are within the limit.
\<close>

definition key_computable :: "runtime \<Rightarrow> ustr \<Rightarrow> bool" where
  "key_computable R s \<longleftrightarrow>
     (isdigit R s \<longrightarrow> list_all (is_decimal R) s) \<and>
     \<not> over_limit R (length (takeWhile (is_decimal R) s))"

section \<open>Merging the two tables of a pair\<close>

text \<open>The two schemas: \<^verbatim>\<open>energy_cols\<close> and \<^verbatim>\<open>nutrient_cols\<close>.\<close>

definition energy_cols :: "ustr list" where
  "energy_cols = map u
     [''foodCode'', ''foodName'', ''edible'', ''water'', ''energyKCal'', ''energyKJ'',
      ''protein'', ''fat'', ''CHO'', ''dietaryFiber'', ''cholesterol'', ''ash'', ''vitaminA'',
      ''carotene'', ''retinol'', ''thiamin'', ''riboflavin'']"

definition nutrient_cols :: "ustr list" where
  "nutrient_cols = map u
     [''foodCode'', ''foodName'', ''niacin'', ''vitaminC'', ''vitaminETotal'', ''vitaminE1'',
      ''vitaminE2'', ''vitaminE3'', ''Ca'', ''P'', ''K'', ''Na'', ''Mg'', ''Fe'', ''Zn'', ''Se'',
      ''Cu'', ''Mn'', ''remark'']"

abbreviation foodCode :: ustr where "foodCode \<equiv> u ''foodCode''"
abbreviation foodName :: ustr where "foodName \<equiv> u ''foodName''"

text \<open>
  \<^verbatim>\<open>{item.get("foodCode", ""): item for item in data if item.get("foodCode")}\<close>: the
  rows whose food code is present and not empty, keyed by it; a later row replaces an
  earlier one with the same code.
\<close>

definition dict_by_code :: "row list \<Rightarrow> (ustr, row) dict" where
  "dict_by_code data =
     foldl (\<lambda>d item. AList.update (dict_get item foodCode []) item d) []
       (filter (\<lambda>item. dict_get item foodCode [] \<noteq> []) data)"

definition dict_keys :: "('k, 'v) dict \<Rightarrow> 'k list" where
  "dict_keys d = map fst d"

text \<open>
  The body of the loop over the codes. The two \<^verbatim>\<open>for key in ...\<close> loops copy fields in
  schema order. The result is \<open>Inr\<close> the record appended to \<^verbatim>\<open>merged\<close>, or \<open>Inl\<close>
  the record that is dropped with the warning.
\<close>

definition copy_fields :: "(ustr \<Rightarrow> bool) \<Rightarrow> ustr list \<Rightarrow> row \<Rightarrow> row \<Rightarrow> row" where
  "copy_fields wanted cols src dst =
     foldl (\<lambda>m key. if wanted key \<and> dict_has src key then AList.update key (dict_get src key []) m else m)
       dst cols"

definition backfill :: "ustr \<Rightarrow> row \<Rightarrow> row \<Rightarrow> row" where
  "backfill key src dst =
     (if \<not> dict_has dst key \<and> dict_has src key then AList.update key (dict_get src key []) dst
      else dst)"

definition merge_item :: "row \<Rightarrow> row \<Rightarrow> row + row" where
  "merge_item energy_item nutrient_item =
     (let merged_item = copy_fields (\<lambda>_. True) energy_cols energy_item [];
          merged_item = copy_fields (\<lambda>key. key \<noteq> foodCode \<and> key \<noteq> foodName) nutrient_cols
                          nutrient_item merged_item
      in if dict_has merged_item foodCode \<and> dict_has merged_item foodName then Inr merged_item
         else
           (let merged_item = backfill foodCode nutrient_item merged_item;
                merged_item = backfill foodName nutrient_item merged_item
            in if dict_has merged_item foodCode \<and> dict_has merged_item foodName
               then Inr merged_item else Inl merged_item))"

text \<open>
  \<^verbatim>\<open>merge_data\<close>. \<^verbatim>\<open>all_codes\<close> is a Python \<^verbatim>\<open>set\<close>: the codes of both
  dictionaries, each once. The order in which \<^verbatim>\<open>for code in all_codes\<close> visits them
  is not specified: \<open>order\<close> is that order, any rearrangement of the codes
  (\<open>set_order\<close>). The result is the list \<^verbatim>\<open>merged\<close> and the records the warnings
  were logged for.
\<close>

definition set_order :: "('a list \<Rightarrow> 'a list) \<Rightarrow> 'a list \<Rightarrow> bool" where
  "set_order order xs \<longleftrightarrow> mset (order xs) = mset xs"

definition all_codes :: "row list \<Rightarrow> row list \<Rightarrow> ustr list" where
  "all_codes energy_data nutrient_data =
     remdups (dict_keys (dict_by_code energy_data) @ dict_keys (dict_by_code nutrient_data))"

definition rights :: "('a + 'b) list \<Rightarrow> 'b list" where
  "rights xs = List.map_filter (\<lambda>x. case x of Inr b \<Rightarrow> Some b | Inl _ \<Rightarrow> None) xs"

definition lefts :: "('a + 'b) list \<Rightarrow> 'a list" where
  "lefts xs = List.map_filter (\<lambda>x. case x of Inl a \<Rightarrow> Some a | Inr _ \<Rightarrow> None) xs"

definition merge_code :: "(ustr, row) dict \<Rightarrow> (ustr, row) dict \<Rightarrow> ustr \<Rightarrow> row + row" where
  "merge_code energy_dict nutrient_dict code =
     merge_item (dict_get energy_dict code []) (dict_get nutrient_dict code [])"

definition merge_data :: "(ustr list \<Rightarrow> ustr list) \<Rightarrow> row list \<Rightarrow> row list \<Rightarrow> row list \<times> row list" where
  "merge_data order energy_data nutrient_data =
     (if energy_data = [] \<and> nutrient_data = [] then ([], [])
      else
        (let energy_dict = dict_by_code energy_data;
             nutrient_dict = dict_by_code nutrient_data;
             results = map (merge_code energy_dict nutrient_dict)
                         (order (all_codes energy_data nutrient_data))
         in (rights results, lefts results)))"

text \<open>
  The merged record as the specification words it, on rows as finite maps: the
  energy-side row restricted to the energy schema, overlaid with the nutrient-side row
  restricted to the nutrient schema without the two identity fields, then each identity
  field that is still missing taken from the nutrient-side row. \<open>side_row data code\<close> is
  the row of one side for a code: the last row with that code, or no fields.
\<close>

definition side_row :: "row list \<Rightarrow> ustr \<Rightarrow> (ustr \<rightharpoonup> ustr)" where
  "side_row data code =
     (case find (\<lambda>item. map_of item foodCode = Some code) (rev data) of
        Some item \<Rightarrow> map_of item
      | None \<Rightarrow> Map.empty)"

definition side_codes :: "row list \<Rightarrow> ustr set" where
  "side_codes data = {code. code \<noteq> [] \<and> (\<exists>item \<in> set data. map_of item foodCode = Some code)}"

definition spec_backfill :: "ustr \<Rightarrow> (ustr \<rightharpoonup> ustr) \<Rightarrow> (ustr \<rightharpoonup> ustr) \<Rightarrow> (ustr \<rightharpoonup> ustr)" where
  "spec_backfill key src dst = (if dst key = None then dst(key := src key) else dst)"

definition spec_merged :: "(ustr \<rightharpoonup> ustr) \<Rightarrow> (ustr \<rightharpoonup> ustr) \<Rightarrow> (ustr \<rightharpoonup> ustr)" where
  "spec_merged e n =
     spec_backfill foodName n
       (spec_backfill foodCode n
          ((e |` set energy_cols) ++ (n |` (set nutrient_cols - {foodCode, foodName}))))"

definition identified :: "(ustr \<rightharpoonup> ustr) \<Rightarrow> bool" where
  "identified r \<longleftrightarrow> r foodCode \<noteq> None \<and> r foodName \<noteq> None"

text \<open>Either the merged record or the dropped one.\<close>

definition merged_record :: "row + row \<Rightarrow> row" where
  "merged_record x = (case x of Inl r \<Rightarrow> r | Inr r \<Rightarrow> r)"

text \<open>A pair of tables for the examples below.\<close>

definition energy_sample :: "row list" where
  "energy_sample =
     [[(foodCode, u ''1''), (u ''water'', u ''3'')],
      [(foodCode, u ''2''), (foodName, u ''b'')]]"

definition nutrient_sample :: "row list" where
  "nutrient_sample =
     [[(foodCode, u ''1''), (foodName, u ''x''), (u ''Ca'', u ''9''), (u ''water'', u ''7'')],
      [(foodCode, u ''3''), (u ''Ca'', u ''9'')]]"

section \<open>Stripping the code fence\<close>

text \<open>\<^verbatim>\<open>s.strip()\<close> removes the white space at both ends.\<close>

definition strip :: "ustr \<Rightarrow> ustr" where
  "strip s = rev (dropWhile is_space (rev (dropWhile is_space s)))"

text \<open>A sequence of patterns; \<^verbatim>\<open>.\<close> with and without \<^verbatim>\<open>re.DOTALL\<close>.\<close>

definition Seqs :: "re list \<Rightarrow> re" where
  "Seqs ps = foldr Seq ps Eps"

definition any_char :: "uchar \<Rightarrow> bool" where
  "any_char c \<longleftrightarrow> True"

definition not_newline :: "uchar \<Rightarrow> bool" where
  "not_newline c \<longleftrightarrow> c \<noteq> 10"

text \<open>
  \<^verbatim>\<open>extract_markdown_table\<close>. The pattern, matched with \<^verbatim>\<open>re.fullmatch\<close> and
  \<^verbatim>\<open>re.DOTALL\<close>, is
  \<^verbatim>\<open>^\s*```(?:markdown|MARKDOWN|md|MD)?\s*[\n]?(.*?)\s*```\s*$\<close>.
\<close>

definition fence_pattern :: re where
  "fence_pattern = Seqs
     [Bol, Star True (Chr is_space), Str (u ''```''),
      Opt (Alt (Str (u ''markdown'')) (Alt (Str (u ''MARKDOWN'')) (Alt (Str (u ''md'')) (Str (u ''MD''))))),
      Star True (Chr is_space), Opt (Lit 10),
      Grp 1 (Star False (Chr any_char)),
      Star True (Chr is_space), Str (u ''```''), Star True (Chr is_space), Eol]"

definition extract_markdown_table :: "ustr \<Rightarrow> ustr" where
  "extract_markdown_table response_text =
     (case re_fullmatch fence_pattern response_text of
        Some (_, c) \<Rightarrow> strip (group_str c 1)
      | None \<Rightarrow> strip response_text)"

section \<open>Pairs and categories\<close>

text \<open>\<^verbatim>\<open>s.startswith(p)\<close>, \<^verbatim>\<open>s.endswith(p)\<close>, and \<^verbatim>\<open>s.replace(old, new)\<close> for a
  non-empty \<^verbatim>\<open>old\<close>: every occurrence, from the left, without overlap.\<close>

definition startswith :: "ustr \<Rightarrow> ustr \<Rightarrow> bool" where
  "startswith s p \<longleftrightarrow> take (length p) s = p"

definition endswith :: "ustr \<Rightarrow> ustr \<Rightarrow> bool" where
  "endswith s p \<longleftrightarrow> length p \<le> length s \<and> drop (length s - length p) s = p"

function replace :: "ustr \<Rightarrow> ustr \<Rightarrow> ustr \<Rightarrow> ustr" where
  "replace old new s =
     (if s = [] \<or> old = [] then s
      else if startswith s old then new @ replace old new (drop (length old) s)
      else hd s # replace old new (tl s))"
  by pat_completeness auto
termination
  by (relation "measure (\<lambda>(old, new, s). length s)") auto

text \<open>
  \<^verbatim>\<open>extract_category_from_filename\<close>. The patterns, used with \<^verbatim>\<open>re.match\<close>, are
  \<^verbatim>\<open>(.+?)-\d+(?:-energy|-nutrient)\<close> and \<^verbatim>\<open>(.+?)(?:-energy|-nutrient)\<close>.
\<close>

definition role_suffix :: re where
  "role_suffix = Alt (Str (u ''-energy'')) (Str (u ''-nutrient''))"

definition numbered_category_pattern :: "runtime \<Rightarrow> re" where
  "numbered_category_pattern R =
     Seqs [Grp 1 (Plus False (Chr not_newline)), Lit 45, Plus True (Chr (is_decimal R)), role_suffix]"

definition category_pattern :: re where
  "category_pattern = Seqs [Grp 1 (Plus False (Chr not_newline)), role_suffix]"

definition extract_category_from_filename :: "runtime \<Rightarrow> ustr \<Rightarrow> ustr" where
  "extract_category_from_filename R filename =
     (case re_match (numbered_category_pattern R) filename of
        Some (_, c) \<Rightarrow> group_str c 1
      | None \<Rightarrow>
          (case re_match category_pattern filename of
             Some (_, c) \<Rightarrow> group_str c 1
           | None \<Rightarrow> path_stem R filename))"

text \<open>
  The discovery of \<^verbatim>\<open>process_directory\<close>. \<^verbatim>\<open>os.walk\<close> gives the directories with
  their file names; a path is the directory and the file name. The loop over
  \<^verbatim>\<open>set(energy_files.keys()) & set(nutrient_files.keys())\<close> visits the common base
  names in an order that is not specified (\<open>order\<close>, as in \<open>merge_data\<close>). The result
  is \<^verbatim>\<open>pairs\<close> and \<^verbatim>\<open>category_map\<close>.
\<close>

type_synonym path = "ustr \<times> ustr"

definition file_role :: "(ustr, path) dict \<times> (ustr, path) dict \<Rightarrow> ustr \<Rightarrow> ustr \<Rightarrow>
    (ustr, path) dict \<times> (ustr, path) dict" where
  "file_role found root file =
     (if endswith file (u ''-energy.png'') then
        (AList.update (replace (u ''-energy.png'') [] file) (root, file) (fst found), snd found)
      else if endswith file (u ''-nutrient.png'') then
        (fst found, AList.update (replace (u ''-nutrient.png'') [] file) (root, file) (snd found))
      else found)"

definition collect_files :: "(ustr \<times> ustr list) list \<Rightarrow> (ustr, path) dict \<times> (ustr, path) dict" where
  "collect_files walk =
     foldl (\<lambda>found (root, files). foldl (\<lambda>found file. file_role found root file) found files)
       ([], []) walk"

definition common_names :: "(ustr, path) dict \<Rightarrow> (ustr, path) dict \<Rightarrow> ustr list" where
  "common_names energy_files nutrient_files =
     filter (\<lambda>name. dict_has nutrient_files name) (dict_keys energy_files)"

definition pair_of :: "(ustr, path) dict \<Rightarrow> (ustr, path) dict \<Rightarrow> ustr \<Rightarrow> path \<times> path \<times> ustr" where
  "pair_of energy_files nutrient_files base_name =
     (dict_get energy_files base_name ([], []), dict_get nutrient_files base_name ([], []), base_name)"

definition discover_pairs :: "runtime \<Rightarrow> (ustr list \<Rightarrow> ustr list) \<Rightarrow> (ustr \<times> ustr list) list \<Rightarrow>
    (path \<times> path \<times> ustr) list \<times> (ustr, ustr) dict" where
  "discover_pairs R order walk =
     (let (energy_files, nutrient_files) = collect_files walk;
          names = order (common_names energy_files nutrient_files)
      in (map (pair_of energy_files nutrient_files) names,
          foldl (\<lambda>category_map base_name.
                   AList.update base_name (extract_category_from_filename R base_name) category_map)
            [] names))"

section \<open>Retrying the extraction of one image\<close>

text \<open>
  \<^verbatim>\<open>str(n)\<close> of an integer, as the f-strings of the source call it. CPython raises
  \<^verbatim>\<open>ValueError\<close> when the number has more decimal digits than the limit on the
  conversion. The texts of the log messages are not modelled, only whether their
  integers can be formatted: an f-string raises the error of the first integer that
  cannot.
\<close>

definition int_str_error :: "runtime \<Rightarrow> exn" where
  "int_str_error R =
     ValueError (u ''Exceeds the limit ('' @ str_nat (int_max_str_digits R) @
       u '' digits) for integer string conversion; use sys.set_int_max_str_digits() to increase the limit'')"

definition str_int :: "runtime \<Rightarrow> int \<Rightarrow> exn + ustr" where
  "str_int R n =
     (let digits = str_nat (nat \<bar>n\<bar>) in
      if over_limit R (length digits) then Inl (int_str_error R)
      else Inr ((if n < 0 then [45] else []) @ digits))"

fun format_ints :: "runtime \<Rightarrow> int list \<Rightarrow> exn option" where
  "format_ints R [] = None"
| "format_ints R (n # ns) = (case str_int R n of Inl e \<Rightarrow> Some e | Inr _ \<Rightarrow> format_ints R ns)"

text \<open>\<^verbatim>\<open>str(last_error)\<close>, where \<^verbatim>\<open>last_error\<close> is \<^verbatim>\<open>None\<close> or an exception.\<close>

definition str_error :: "exn option \<Rightarrow> ustr" where
  "str_error last_error = (case last_error of None \<Rightarrow> u ''None'' | Some e \<Rightarrow> str_exn e)"

text \<open>
  \<^verbatim>\<open>process_image_with_retry\<close> runs in an environment that decides, for the iteration
  of the loop in which \<^verbatim>\<open>retries\<close> has the value \<open>k\<close>,
  \<^item> \<open>attempt k image_path is_energy\<close>: what the call of \<^verbatim>\<open>process_image\<close> returns or
    raises;
  \<^item> \<open>sleep seconds\<close>: whether \<^verbatim>\<open>asyncio.sleep(seconds)\<close> raises (it raises
    \<^verbatim>\<open>OverflowError\<close> when the number is too large for a float);
  \<^item> \<open>error_exists k\<close>: what \<^verbatim>\<open>error_path.exists()\<close> returns or raises;
  \<^item> \<open>error_removed k\<close>: whether \<^verbatim>\<open>os.remove(error_path)\<close> raises;
  \<^item> \<open>error_opened\<close>, \<open>error_written content\<close>: whether opening the error file for
    writing raises, and whether writing the content and closing the file raises.

  The exceptions are the instances of \<^verbatim>\<open>Exception\<close>, which \<^verbatim>\<open>except Exception\<close>
  catches. A run leaves the trace of what it did: the calls of \<^verbatim>\<open>process_image\<close>, the
  sleeps that returned, and the file operations that succeeded.
\<close>

record retry_env =
  attempt :: "nat \<Rightarrow> path \<Rightarrow> bool \<Rightarrow> exn + row list"
  sleep :: "nat \<Rightarrow> exn option"
  error_exists :: "nat \<Rightarrow> exn + bool"
  error_removed :: "nat \<Rightarrow> exn option"
  error_opened :: "exn option"
  error_written :: "ustr \<Rightarrow> exn option"

datatype event = Attempt | Slept nat | Removed path | Opened path | Written path ustr

text \<open>\<^verbatim>\<open>self.failed_dir / f"{image_path.stem}_error.txt"\<close>.\<close>

definition error_file :: "runtime \<Rightarrow> ustr \<Rightarrow> path \<Rightarrow> path" where
  "error_file R failed_dir image_path = (failed_dir, path_stem R (snd image_path) @ u ''_error.txt'')"

text \<open>
  The start of the \<^verbatim>\<open>try\<close> block: from the second iteration on, the message of the
  retry is formatted (with \<^verbatim>\<open>retries\<close>, \<^verbatim>\<open>max_retries\<close> and \<^verbatim>\<open>wait_time\<close>), then
  the task sleeps \<^verbatim>\<open>5 ** retries\<close> seconds.
\<close>

definition backoff :: "runtime \<Rightarrow> retry_env \<Rightarrow> int \<Rightarrow> nat \<Rightarrow> event list \<times> exn option" where
  "backoff R W max_retries retries =
     (if 0 < retries then
        (let wait_time = 5 ^ retries in
         case format_ints R [int retries, max_retries, int wait_time] of
           Some e \<Rightarrow> ([], Some e)
         | None \<Rightarrow>
             (case sleep W wait_time of
                Some e \<Rightarrow> ([], Some e)
              | None \<Rightarrow> ([Slept wait_time], None)))
      else ([], None))"

text \<open>
  After a successful call: the error file of the image is removed when it exists. An
  exception of \<^verbatim>\<open>os.remove\<close> is caught at once; an exception of \<^verbatim>\<open>exists\<close> is
  not, and reaches the handler of the loop.
\<close>

definition clear_error :: "retry_env \<Rightarrow> path \<Rightarrow> nat \<Rightarrow> event list \<times> exn option" where
  "clear_error W error_path retries =
     (case error_exists W retries of
        Inl e \<Rightarrow> ([], Some e)
      | Inr present \<Rightarrow>
          (if present then
             (case error_removed W retries of
                None \<Rightarrow> ([Removed error_path], None)
              | Some _ \<Rightarrow> ([], None))
           else ([], None)))"

text \<open>The \<^verbatim>\<open>try\<close> block of one iteration: its trace, and its result or its exception.\<close>

definition try_once :: "runtime \<Rightarrow> retry_env \<Rightarrow> int \<Rightarrow> ustr \<Rightarrow> path \<Rightarrow> bool \<Rightarrow> nat \<Rightarrow>
    event list \<times> (exn + row list)" where
  "try_once R W max_retries failed_dir image_path is_energy retries =
     (case backoff R W max_retries retries of
        (slept, Some e) \<Rightarrow> (slept, Inl e)
      | (slept, None) \<Rightarrow>
          (case attempt W retries image_path is_energy of
             Inl e \<Rightarrow> (slept @ [Attempt], Inl e)
           | Inr result \<Rightarrow>
               (case clear_error W (error_file R failed_dir image_path) retries of
                  (removed, Some e) \<Rightarrow> (slept @ [Attempt] @ removed, Inl e)
                | (removed, None) \<Rightarrow> (slept @ [Attempt] @ removed, Inr result))))"

text \<open>
  After the loop: the error file is opened for writing, then the content is formatted
  and written; an exception of any of the three is caught.
\<close>

definition record_error :: "runtime \<Rightarrow> retry_env \<Rightarrow> int \<Rightarrow> path \<Rightarrow> exn option \<Rightarrow> event list" where
  "record_error R W max_retries error_path last_error =
     (case error_opened W of
        Some _ \<Rightarrow> []
      | None \<Rightarrow>
          (case str_int R max_retries of
             Inl _ \<Rightarrow> [Opened error_path]
           | Inr retries_text \<Rightarrow>
               (let content = u ''Error after '' @ retries_text @ u '' retries: '' @ str_error last_error
                in case error_written W content of
                     Some _ \<Rightarrow> [Opened error_path]
                   | None \<Rightarrow> [Opened error_path, Written error_path content])))"

text \<open>
  The loop, from the iteration in which \<^verbatim>\<open>retries\<close> has the given value. The handler
  counts the failure, keeps the exception and formats its message (with the new
  \<^verbatim>\<open>retries\<close> and \<^verbatim>\<open>max_retries\<close>) outside of any \<^verbatim>\<open>try\<close>: an exception of the
  formatting leaves the function.
\<close>

function retry_loop :: "runtime \<Rightarrow> retry_env \<Rightarrow> int \<Rightarrow> ustr \<Rightarrow> path \<Rightarrow> bool \<Rightarrow> nat \<Rightarrow> exn option \<Rightarrow>
    event list \<times> (exn + row list)" where
  "retry_loop R W max_retries failed_dir image_path is_energy retries last_error =
     (if int retries \<le> max_retries then
        (case try_once R W max_retries failed_dir image_path is_energy retries of
           (events, Inr result) \<Rightarrow> (events, Inr result)
         | (events, Inl e) \<Rightarrow>
             (case format_ints R [int retries + 1, max_retries] of
                Some e' \<Rightarrow> (events, Inl e')
              | None \<Rightarrow>
                  (case retry_loop R W max_retries failed_dir image_path is_energy (Suc retries) (Some e) of
                     (later, outcome) \<Rightarrow> (events @ later, outcome))))
      else (record_error R W max_retries (error_file R failed_dir image_path) last_error, Inr []))"
  by pat_completeness auto
termination
  by (relation "measure (\<lambda>(R, W, max_retries, failed_dir, image_path, is_energy, retries, last_error).
        nat (max_retries + 1 - int retries))") auto

declare retry_loop.simps [simp del]

definition process_image_with_retry :: "runtime \<Rightarrow> retry_env \<Rightarrow> int \<Rightarrow> ustr \<Rightarrow> path \<Rightarrow> bool \<Rightarrow>
    event list \<times> (exn + row list)" where
  "process_image_with_retry R W max_retries failed_dir image_path is_energy =
     retry_loop R W max_retries failed_dir image_path is_energy 0 None"

text \<open>
  What a trace says of the schedule: the number of calls of \<^verbatim>\<open>process_image\<close>, and the
  calls and the sleeps in their order. \<open>backoff_schedule n\<close> is the schedule of \<open>n\<close>
  attempts with a sleep of \<open>5 ^ k\<close> seconds between attempt \<open>k\<close> and attempt \<open>k + 1\<close>.
\<close>

definition attempts :: "event list \<Rightarrow> nat" where
  "attempts trace = length (filter (\<lambda>e. e = Attempt) trace)"



definition schedule_step :: "nat \<Rightarrow> event list" where
  "schedule_step k = (if k = 0 then [Attempt] else [Slept (5 ^ k), Attempt])"

definition schedule_from :: "nat \<Rightarrow> nat \<Rightarrow> event list" where
  "schedule_from k n = concat (map schedule_step [k..<k + n])"



text \<open>A sample environment: the network fails twice, then the service answers.\<close>

definition sample_rows :: "row list" where
  "sample_rows = [[(foodCode, u ''121101''), (foodName, u ''carp'')]]"

definition third_time_lucky :: retry_env where
  "third_time_lucky =
     \<lparr>attempt = (\<lambda>k image_path is_energy. if k < 2 then Inl (EnvError (u ''timeout'')) else Inr sample_rows),
      sleep = (\<lambda>seconds. None),
      error_exists = (\<lambda>k. Inr True),
      error_removed = (\<lambda>k. None),
      error_opened = None,
      error_written = (\<lambda>content. None)\<rparr>"

text \<open>
  Another one: the service never answers and the disk is full, and one where the error
  file of an earlier run cannot be removed.
\<close>

definition never_lucky :: retry_env where
  "never_lucky =
     \<lparr>attempt = (\<lambda>k image_path is_energy. Inl (EnvError (u ''timeout''))),
      sleep = (\<lambda>seconds. None),
      error_exists = (\<lambda>k. Inr False),
      error_removed = (\<lambda>k. None),
      error_opened = Some (EnvError (u ''No space left on device'')),
      error_written = (\<lambda>content. None)\<rparr>"

definition read_only :: retry_env where
  "read_only =
     \<lparr>attempt = (\<lambda>k image_path is_energy. Inr sample_rows),
      sleep = (\<lambda>seconds. None),
      error_exists = (\<lambda>k. Inr True),
      error_removed = (\<lambda>k. Some (EnvError (u ''Read-only file system''))),
      error_opened = None,
      error_written = (\<lambda>content. None)\<rparr>"

section \<open>Facts about the matcher\<close>

lemma rx_star_greedy_chr:
  "k (dropWhile P r) c \<noteq> None \<Longrightarrow> rx (Star True (Chr P)) s r c k = k (dropWhile P r) c"
proof (induction r)
  case Nil
  then show ?case by simp
next
  case (Cons x xs)
  show ?case
  proof (cases "P x")
    case True
    with Cons have "rx (Star True (Chr P)) s xs c k = k (dropWhile P xs) c"
      and "k (dropWhile P xs) c \<noteq> None"
      by auto
    with True show ?thesis by (auto split: option.splits)
  next
    case False
    then show ?thesis by simp
  qed
qed

lemma take_length_dropWhile: "take (length r - length (dropWhile P r)) r = takeWhile P r"
  by (induction r) (auto simp: Suc_diff_le length_dropWhile_le)

lemma rx_group_star_greedy_chr:
  "rx (Grp n (Star True (Chr P))) s r c (\<lambda>r' c'. Some (r', c')) =
     Some (dropWhile P r, c(n := Some (takeWhile P r)))"
  by (simp add: rx_star_greedy_chr take_length_dropWhile del: rx.simps(6))

section \<open>Facts about the sort\<close>

lemma re_match_sort_key_pattern:
  "re_match (sort_key_pattern R) s =
     (if takeWhile (is_decimal R) s = [] then None
      else Some (dropWhile is_ascii_letter (dropWhile (is_decimal R) s),
                 no_groups(1 := Some (takeWhile (is_decimal R) s),
                           2 := Some (takeWhile is_ascii_letter (dropWhile (is_decimal R) s)))))"
proof (cases s)
  case Nil
  then show ?thesis by (simp add: re_match_def sort_key_pattern_def Plus_def)
next
  case (Cons x xs)
  show ?thesis
  proof (cases "is_decimal R x")
    case False
    with Cons show ?thesis by (simp add: re_match_def sort_key_pattern_def Plus_def)
  next
    case True
    have tk: "take (Suc (length xs) - length (dropWhile (is_decimal R) xs)) (x # xs) =
        x # takeWhile (is_decimal R) xs"
      using take_length_dropWhile[where P="is_decimal R" and r="x # xs"] True by simp
    show ?thesis using Cons True
      by (simp add: re_match_def sort_key_pattern_def Plus_def rx_star_greedy_chr
            rx_group_star_greedy_chr[simplified] take_length_dropWhile tk del: rx.simps(6))
  qed
qed

lemma py_int_decimals:
  assumes "s \<noteq> []" and "list_all (is_decimal R) s" and "\<not> over_limit R (length s)"
  shows "py_int R s = Inr (digits_value R s)"
proof -
  from assms(2) have tw: "takeWhile (is_decimal R) s = s"
    by (simp add: list_all_iff)
  from assms show ?thesis
    by (simp add: py_int_def Let_def tw)
qed

text \<open>The key of a record is the prefix key of its code, when \<^verbatim>\<open>int\<close> reads its digits.\<close>

lemma get_sort_key_prefix:
  assumes "key_computable R (food_code_of item)"
  shows "get_sort_key R item = Inr (prefix_sort_key R (food_code_of item))"
proof (cases "isdigit R (food_code_of item)")
  case True
  with assms have dec: "list_all (is_decimal R) (food_code_of item)"
    and ne: "food_code_of item \<noteq> []"
    by (auto simp: isdigit_def key_computable_def)
  from dec have tw: "takeWhile (is_decimal R) (food_code_of item) = food_code_of item"
    and dw: "dropWhile (is_decimal R) (food_code_of item) = []"
    by (auto simp: list_all_iff)
  from assms have "\<not> over_limit R (length (food_code_of item))"
    by (simp add: key_computable_def tw)
  with dec ne have "py_int R (food_code_of item) = Inr (digits_value R (food_code_of item))"
    by (intro py_int_decimals)
  with True ne show ?thesis
    by (simp add: get_sort_key_def food_code_of_def[symmetric] prefix_sort_key_def tw dw)
next
  case False
  show ?thesis
  proof (cases "takeWhile (is_decimal R) (food_code_of item) = []")
    case True
    with False show ?thesis
      by (simp add: get_sort_key_def food_code_of_def[symmetric] prefix_sort_key_def
            re_match_sort_key_pattern Let_def)
  next
    case nonempty: False
    have "list_all (is_decimal R) (takeWhile (is_decimal R) (food_code_of item))"
      by (simp add: list_all_iff) (meson set_takeWhileD)
    moreover from assms
    have "\<not> over_limit R (length (takeWhile (is_decimal R) (food_code_of item)))"
      by (simp add: key_computable_def)
    ultimately have "py_int R (takeWhile (is_decimal R) (food_code_of item)) =
        Inr (digits_value R (takeWhile (is_decimal R) (food_code_of item)))"
      using nonempty by (intro py_int_decimals)
    with False nonempty show ?thesis
      by (simp add: get_sort_key_def food_code_of_def[symmetric] prefix_sort_key_def
            re_match_sort_key_pattern group_str_def Let_def)
  qed
qed

lemma map_exn_total:
  "(\<And>x. x \<in> set xs \<Longrightarrow> f x = Inr (g x)) \<Longrightarrow> map_exn f xs = Inr (map g xs)"
  by (induction xs) auto

lemma insort_key_decorated:
  "insort_key fst (g x, x) (map (\<lambda>y. (g y, y)) ys) = map (\<lambda>y. (g y, y)) (insort_key g x ys)"
  by (induction ys) auto

lemma sort_key_decorated:
  "sort_key fst (zip (map g xs) xs) = map (\<lambda>y. (g y, y)) (sort_key g xs)"
  by (induction xs) (auto simp: insort_key_decorated)

lemma sort_food_data_by_code_total:
  assumes "\<And>item. item \<in> set data \<Longrightarrow> get_sort_key R item = Inr (g item)"
  shows "sort_food_data_by_code R data = Inr (sort_key g data)"
  using map_exn_total[of data "get_sort_key R" g, OF assms]
  by (simp add: sort_food_data_by_code_def sort_key_decorated comp_def)

text \<open>
  Where the specification's key and the code's key differ: only on a code that starts
  with a digit and has something other than letters after its digits.
\<close>

lemma prefix_sort_key_agrees:
  assumes "takeWhile (is_decimal R) s = [] \<or> list_all is_ascii_letter (dropWhile (is_decimal R) s)"
  shows "prefix_sort_key R s = spec_sort_key R s"
proof (cases "s \<noteq> [] \<and> list_all (is_decimal R) s")
  case True
  then have tw: "takeWhile (is_decimal R) s = s" and dw: "dropWhile (is_decimal R) s = []"
    by (auto simp: list_all_iff)
  from True show ?thesis
    by (simp add: prefix_sort_key_def spec_sort_key_def tw dw)
next
  case False
  show ?thesis
  proof (cases "takeWhile (is_decimal R) s = []")
    case True
    with False show ?thesis
      by (simp add: prefix_sort_key_def spec_sort_key_def)
  next
    case nonempty: False
    with assms have letters: "list_all is_ascii_letter (dropWhile (is_decimal R) s)"
      by simp
    then have tl: "takeWhile is_ascii_letter (dropWhile (is_decimal R) s) = dropWhile (is_decimal R) s"
      by (simp add: list_all_iff)
    from False have notdec: "(s \<noteq> [] \<and> list_all (is_decimal R) s) = False"
      by simp
    show ?thesis
      using nonempty letters
      by (simp only: prefix_sort_key_def spec_sort_key_def tl notdec if_False if_True simp_thms)
  qed
qed

text \<open>The ASCII characters in a standard runtime, for evaluation on ASCII strings.\<close>

lemma ascii_decimal:
  "ascii_standard R \<Longrightarrow> c < 128 \<Longrightarrow>
     uc_decimal R c = (if 48 \<le> c \<and> c \<le> 57 then Some (c - 48) else None)"
  by (simp add: ascii_standard_def)

lemma ascii_digit: "ascii_standard R \<Longrightarrow> c < 128 \<Longrightarrow> uc_digit R c = (48 \<le> c \<and> c \<le> 57)"
  by (simp add: ascii_standard_def)

lemma ascii_alpha: "ascii_standard R \<Longrightarrow> c < 128 \<Longrightarrow> uc_alpha R c = is_ascii_letter c"
  by (simp add: ascii_standard_def)

lemma ascii_limit: "ascii_standard R \<Longrightarrow> n < 640 \<Longrightarrow> over_limit R n = False"
  by (auto simp: ascii_standard_def over_limit_def)

lemma ascii_standard_latin1: "ascii_standard latin1_runtime"
  by (simp add: ascii_standard_def latin1_runtime_def)

lemmas sort_eval =
  u_def re_match_def sort_key_pattern_def Plus_def is_decimal_def decimal_value_def
  is_ascii_letter_def get_sort_key_def dict_get_def isdigit_def py_int_def digits_value_def
  group_str_def no_groups_def sort_food_data_by_code_def code_row_def food_code_of_def
  ascii_decimal ascii_digit ascii_limit

lemma get_sort_key_missing:
  "ascii_standard R \<Longrightarrow> \<not> dict_has item (u ''foodCode'') \<Longrightarrow> get_sort_key R item = Inr (0, [])"
  by (simp add: dict_has_def sort_eval)

lemma sort_food_data_by_code_example:
  assumes "ascii_standard R"
  shows "sort_food_data_by_code R (map code_row [''121102'', ''121101'', ''124201x'', ''124200'']) =
           Inr (map code_row [''121101'', ''121102'', ''124200'', ''124201x''])"
  using assms by (simp add: sort_eval)

text \<open>
  In every standard runtime the code 12-3 has the key (12, empty string), so its record
  comes after the record with code 5; the key the specification words is (0, 12-3),
  which would put it before.
\<close>

lemma sort_food_data_by_code_prefix_match:
  assumes "ascii_standard R"
  shows "sort_food_data_by_code R [code_row ''12-3'', code_row ''5''] =
           Inr [code_row ''5'', code_row ''12-3''] \<and>
         \<not> sorted (map (\<lambda>item. spec_sort_key R (food_code_of item)) [code_row ''5'', code_row ''12-3''])"
  using assms by (simp add: sort_eval spec_sort_key_def)

section \<open>Claims about the sort\<close>

text \<open>
  C2, as amended. Sorting by food code returns the records in ascending order of the
  prefix key, keeping the input order of records with equal keys: the key of a code that
  starts with decimal digits is (value of the leading digits, the ASCII letters right
  after them), also when other characters follow, and the key of any other code is (0,
  the code). This holds whenever \<^verbatim>\<open>int\<close> reads the digits of every code
  (\<open>key_computable\<close>: no code is made of \<^verbatim>\<open>isdigit\<close> characters that are not all
  decimal digits, and no leading digit run is beyond the interpreter's limit), for every
  Unicode table. In every standard runtime the codes 121102, 121101, 124201x, 124200
  sort to 121101, 121102, 124200, 124201x.
\<close>

theorem sort_food_data_by_code_prefix_key:
  assumes "\<forall>item \<in> set data. key_computable R (food_code_of item)"
  shows "(\<exists>out. sort_food_data_by_code R data = Inr out \<and> mset out = mset data \<and>
            sorted (map (\<lambda>item. prefix_sort_key R (food_code_of item)) out) \<and>
            (\<forall>k. filter (\<lambda>item. prefix_sort_key R (food_code_of item) = k) out =
                 filter (\<lambda>item. prefix_sort_key R (food_code_of item) = k) data)) \<and>
         (ascii_standard R \<longrightarrow>
            sort_food_data_by_code R (map code_row [''121102'', ''121101'', ''124201x'', ''124200'']) =
              Inr (map code_row [''121101'', ''121102'', ''124200'', ''124201x'']))"
proof (intro conjI impI)
  let ?g = "\<lambda>item. prefix_sort_key R (food_code_of item)"
  have "sort_food_data_by_code R data = Inr (sort_key ?g data)"
    using assms by (intro sort_food_data_by_code_total get_sort_key_prefix) blast
  moreover have "mset (sort_key ?g data) = mset data"
    by simp
  moreover have "sorted (map ?g (sort_key ?g data))"
    by (rule sorted_sort_key)
  moreover have "\<forall>k. filter (\<lambda>item. ?g item = k) (sort_key ?g data) = filter (\<lambda>item. ?g item = k) data"
    by (simp add: sort_key_stable)
  ultimately show "\<exists>out. sort_food_data_by_code R data = Inr out \<and> mset out = mset data \<and>
      sorted (map ?g out) \<and>
      (\<forall>k. filter (\<lambda>item. ?g item = k) out = filter (\<lambda>item. ?g item = k) data)"
    by blast
next
  assume "ascii_standard R"
  then show "sort_food_data_by_code R (map code_row [''121102'', ''121101'', ''124201x'', ''124200'']) =
      Inr (map code_row [''121101'', ''121102'', ''124200'', ''124201x''])"
    by (rule sort_food_data_by_code_example)
qed

theorem sort_food_data_by_code_prefix_key_witness:
  "(\<exists>out. sort_food_data_by_code latin1_runtime [code_row ''12-3'', code_row ''5''] = Inr out \<and>
      mset out = mset [code_row ''12-3'', code_row ''5''] \<and>
      sorted (map (\<lambda>item. prefix_sort_key latin1_runtime (food_code_of item)) out)) \<and>
   sort_food_data_by_code latin1_runtime
       (map code_row [''121102'', ''121101'', ''124201x'', ''124200'']) =
     Inr (map code_row [''121101'', ''121102'', ''124200'', ''124201x''])"
proof -
  have h: "\<forall>item \<in> set [code_row ''12-3'', code_row ''5''].
      key_computable latin1_runtime (food_code_of item)"
    using ascii_standard_latin1 by (simp add: key_computable_def sort_eval)
  show ?thesis
    using sort_food_data_by_code_prefix_key[OF h] ascii_standard_latin1 by blast
qed

text \<open>
  C2 as stated fails: the code 12-3 is neither purely numeric nor digits followed by
  letters, so the stated key is (0, 12-3) and the record would come before the one with
  code 5; the code gives it the key (12, empty string) and puts it after.
\<close>

theorem sort_food_data_by_code_spec_key_counterexample:
  "sort_food_data_by_code latin1_runtime [code_row ''12-3'', code_row ''5''] =
     Inr [code_row ''5'', code_row ''12-3''] \<and>
   \<not> sorted (map (\<lambda>item. spec_sort_key latin1_runtime (food_code_of item))
        [code_row ''5'', code_row ''12-3''])"
  by (rule sort_food_data_by_code_prefix_match[OF ascii_standard_latin1])

text \<open>
  C10, at the failing input. The record list with the single food code U+00B2
  (superscript two), in every runtime whose tables say of it what Unicode says: it is an
  \<^verbatim>\<open>isdigit\<close> character, no decimal digit, and printable. The code is a string,
  \<^verbatim>\<open>isdigit\<close> holds of it, \<^verbatim>\<open>int\<close> raises \<^verbatim>\<open>ValueError\<close> on it, and so does the sort.
\<close>

theorem sort_food_data_by_code_raises:
  assumes "uc_digit R 178" and "uc_decimal R 178 = None" and "uc_printable R 178"
  shows "isdigit R [178] \<and>
         sort_food_data_by_code R [[(u ''foodCode'', [178])]] =
           Inl (ValueError (u ''invalid literal for int() with base 10: '' @ [39, 178, 39]))"
  using assms
  by (simp add: sort_food_data_by_code_def get_sort_key_def dict_get_def isdigit_def py_int_def
        is_decimal_def over_limit_def py_repr_def repr_char_def u_def)

theorem sort_food_data_by_code_raises_witness:
  "isdigit latin1_runtime [178] \<and>
   sort_food_data_by_code latin1_runtime [[(u ''foodCode'', [178])]] =
     Inl (ValueError (u ''invalid literal for int() with base 10: '' @ [39, 178, 39]))"
proof -
  have "uc_digit latin1_runtime 178" and "uc_decimal latin1_runtime 178 = None"
    and "uc_printable latin1_runtime 178"
    by (simp_all add: latin1_runtime_def)
  then show ?thesis
    by (rule sort_food_data_by_code_raises)
qed

section \<open>Facts about the merge\<close>

lemma dict_has_dom: "dict_has d k \<longleftrightarrow> k \<in> dom (map_of d)"
  by (auto simp: dict_has_def)

lemma map_of_copy_fields:
  "map_of (copy_fields wanted cols src dst) =
     map_of dst ++ (map_of src |` {k \<in> set cols. wanted k})"
proof (induction cols arbitrary: dst)
  case Nil
  then show ?case by (simp add: copy_fields_def)
next
  case (Cons k cols)
  have step: "copy_fields wanted (k # cols) src dst =
      copy_fields wanted cols src
        (if wanted k \<and> dict_has src k then AList.update k (dict_get src k []) dst else dst)"
    by (simp add: copy_fields_def)
  show ?case
    unfolding step Cons.IH
    by (rule ext)
      (auto simp: map_add_def restrict_map_def update_conv' dict_has_def dict_get_def
        split: option.splits)
qed

lemma map_of_backfill:
  "map_of (backfill key src dst) = spec_backfill key (map_of src) (map_of dst)"
  by (rule ext)
    (auto simp: backfill_def spec_backfill_def update_conv' dict_has_def dict_get_def
      split: option.splits)

lemma spec_backfill_present: "dst key \<noteq> None \<Longrightarrow> spec_backfill key src dst = dst"
  by (auto simp: spec_backfill_def)

lemma identified_map_of: "identified (map_of r) \<longleftrightarrow> dict_has r foodCode \<and> dict_has r foodName"
  by (simp add: identified_def dict_has_def)

lemma merge_item_spec:
  "\<exists>r. map_of r = spec_merged (map_of e) (map_of n) \<and>
       merge_item e n = (if identified (spec_merged (map_of e) (map_of n)) then Inr r else Inl r)"
proof -
  let ?over = "copy_fields (\<lambda>key. key \<noteq> foodCode \<and> key \<noteq> foodName) nutrient_cols n
      (copy_fields (\<lambda>_. True) energy_cols e [])"
  let ?filled = "backfill foodName n (backfill foodCode n ?over)"
  have over: "map_of ?over = (map_of e |` set energy_cols) ++ (map_of n |` (set nutrient_cols - {foodCode, foodName}))"
    by (simp add: map_of_copy_fields) (rule arg_cong[where f="\<lambda>A. _ ++ (_ |` A)"], auto)
  have filled: "map_of ?filled = spec_merged (map_of e) (map_of n)"
    by (simp add: map_of_backfill over spec_merged_def)
  show ?thesis
  proof (cases "dict_has ?over foodCode \<and> dict_has ?over foodName")
    case True
    then have same: "spec_merged (map_of e) (map_of n) = map_of ?over"
      unfolding spec_merged_def over[symmetric]
      by (simp add: spec_backfill_present dict_has_def)
    have "merge_item e n = Inr ?over"
      using True by (simp add: merge_item_def Let_def)
    moreover have "identified (map_of ?over)"
      using True by (simp add: identified_map_of)
    ultimately show ?thesis
      unfolding same by (intro exI[of _ ?over]) simp
  next
    case False
    then have cond: "(dict_has ?over foodCode \<and> dict_has ?over foodName) = False"
      by simp
    have "merge_item e n = (if identified (map_of ?filled) then Inr ?filled else Inl ?filled)"
      unfolding identified_map_of by (simp only: merge_item_def Let_def cond if_False)
    then show ?thesis
      unfolding filled by (intro exI[of _ ?filled]) (simp add: filled)
  qed
qed

lemma map_of_foldl_update:
  "map_of (foldl (\<lambda>d item. AList.update (key item) item d) d0 xs) c =
     (case find (\<lambda>item. key item = c) (rev xs) of Some item \<Rightarrow> Some item | None \<Rightarrow> map_of d0 c)"
  by (induction xs rule: rev_induct) (auto simp: update_conv')

lemma keys_foldl_update:
  "set (dict_keys (foldl (\<lambda>d item. AList.update (key item) item d) d0 xs)) =
     set (dict_keys d0) \<union> key ` set xs"
  by (induction xs rule: rev_induct) (auto simp: dict_keys_def update_keys)

lemma find_filter_weaker: "(\<And>x. P x \<Longrightarrow> Q x) \<Longrightarrow> find P (filter Q xs) = find P xs"
  by (induction xs) auto

lemma code_key_iff:
  "code \<noteq> [] \<Longrightarrow> dict_get item foodCode [] = code \<longleftrightarrow> map_of item foodCode = Some code"
  by (auto simp: dict_get_def split: option.splits)

lemma keys_dict_by_code: "set (dict_keys (dict_by_code data)) = side_codes data"
proof -
  have "set (dict_keys (dict_by_code data)) =
      (\<lambda>item. dict_get item foodCode []) ` {item \<in> set data. dict_get item foodCode [] \<noteq> []}"
    unfolding dict_by_code_def keys_foldl_update by (simp add: dict_keys_def)
  also have "\<dots> = side_codes data"
  proof (intro set_eqI iffI)
    fix c assume "c \<in> (\<lambda>item. dict_get item foodCode []) ` {item \<in> set data. dict_get item foodCode [] \<noteq> []}"
    then obtain item where "item \<in> set data" "dict_get item foodCode [] = c" "c \<noteq> []"
      by auto
    then show "c \<in> side_codes data"
      using code_key_iff[of c item] by (auto simp: side_codes_def)
  next
    fix c assume "c \<in> side_codes data"
    then obtain item where "item \<in> set data" "map_of item foodCode = Some c" "c \<noteq> []"
      by (auto simp: side_codes_def)
    then show "c \<in> (\<lambda>item. dict_get item foodCode []) ` {item \<in> set data. dict_get item foodCode [] \<noteq> []}"
      using code_key_iff[of c item] by (intro image_eqI[of _ _ item]) auto
  qed
  finally show ?thesis .
qed

lemma set_order_set: "set_order order xs \<Longrightarrow> set (order xs) = set xs"
  unfolding set_order_def by (rule mset_eq_setD)

lemma set_order_distinct: "set_order order xs \<Longrightarrow> distinct (order xs) = distinct xs"
  unfolding set_order_def by (rule mset_eq_imp_distinct_iff)

lemma all_codes_side_codes: "set (all_codes energy_data nutrient_data) = side_codes energy_data \<union> side_codes nutrient_data"
  by (simp add: all_codes_def keys_dict_by_code)

lemma row_of_dict_by_code:
  assumes "code \<noteq> []"
  shows "map_of (dict_get (dict_by_code data) code []) = side_row data code"
proof -
  have same: "(\<lambda>item. dict_get item foodCode [] = code) = (\<lambda>item. map_of item foodCode = Some code)"
    using assms by (simp add: code_key_iff)
  have "find (\<lambda>item. map_of item foodCode = Some code)
          (filter (\<lambda>item. dict_get item foodCode [] \<noteq> []) (rev data)) =
        find (\<lambda>item. map_of item foodCode = Some code) (rev data)"
    by (rule find_filter_weaker) (simp add: dict_get_def assms)
  then have "find (\<lambda>item. dict_get item foodCode [] = code)
          (rev (filter (\<lambda>item. dict_get item foodCode [] \<noteq> []) data)) =
        find (\<lambda>item. map_of item foodCode = Some code) (rev data)"
    unfolding same rev_filter .
  then show ?thesis
    by (simp add: dict_by_code_def dict_get_def[of "foldl _ _ _"] map_of_foldl_update side_row_def
          split: option.splits)
qed

lemma rights_map_if:
  "rights (map (\<lambda>c. if P c then Inr (f c) else Inl (g c)) cs) = map f (filter P cs)"
  by (induction cs) (auto simp: rights_def)

lemma lefts_map_if:
  "lefts (map (\<lambda>c. if P c then Inr (f c) else Inl (g c)) cs) = map g (filter (\<lambda>c. \<not> P c) cs)"
  by (induction cs) (auto simp: lefts_def)

lemma merge_item_cases:
  "merge_item e n =
     (if identified (spec_merged (map_of e) (map_of n)) then Inr (merged_record (merge_item e n))
      else Inl (merged_record (merge_item e n))) \<and>
   map_of (merged_record (merge_item e n)) = spec_merged (map_of e) (map_of n)"
  using merge_item_spec[of e n] by (auto simp: merged_record_def)

lemma side_row_present:
  "code \<in> side_codes data \<Longrightarrow> side_row data code foodCode = Some code"
proof -
  assume "code \<in> side_codes data"
  then obtain item where "item \<in> set (rev data)" "map_of item foodCode = Some code"
    by (auto simp: side_codes_def)
  then obtain found where "find (\<lambda>item. map_of item foodCode = Some code) (rev data) = Some found"
    by (cases "find (\<lambda>item. map_of item foodCode = Some code) (rev data)") (auto simp: find_None_iff)
  moreover from this have "map_of found foodCode = Some code"
    by (auto simp: find_Some_iff)
  ultimately show ?thesis by (simp add: side_row_def)
qed

lemma side_row_absent:
  assumes "code \<noteq> []" and "code \<notin> side_codes data"
  shows "side_row data code = Map.empty"
proof -
  from assms have "find (\<lambda>item. map_of item foodCode = Some code) (rev data) = None"
    by (auto simp: find_None_iff side_codes_def)
  then show ?thesis by (simp add: side_row_def)
qed

lemma foodCode_neq_foodName: "foodCode \<noteq> foodName"
  by (simp add: u_def)

lemma spec_backfill_apply:
  "spec_backfill key src dst k = (if dst key = None \<and> k = key then src key else dst k)"
  by (simp add: spec_backfill_def)

lemma spec_backfill_empty: "spec_backfill key Map.empty dst = dst"
  by (rule ext) (auto simp: spec_backfill_apply)

lemma foodCode_energy: "foodCode \<in> set energy_cols" and foodName_energy: "foodName \<in> set energy_cols"
  by (simp_all add: energy_cols_def)

lemma spec_merged_code:
  assumes "code \<in> side_codes energy_data \<union> side_codes nutrient_data"
  shows "spec_merged (side_row energy_data code) (side_row nutrient_data code) foodCode = Some code"
proof (cases "code \<in> side_codes energy_data")
  case True
  then show ?thesis
    using foodCode_neq_foodName
    by (simp add: spec_merged_def spec_backfill_apply side_row_present foodCode_energy
          map_add_def restrict_map_def)
next
  case False
  with assms have "code \<in> side_codes nutrient_data" by simp
  moreover from this have "code \<noteq> []" by (simp add: side_codes_def)
  ultimately show ?thesis
    using False foodCode_neq_foodName
    by (simp add: spec_merged_def spec_backfill_apply side_row_present side_row_absent
          map_add_def restrict_map_def)
qed

lemma spec_merged_energy_only:
  "spec_merged e Map.empty = e |` set energy_cols"
  by (simp add: spec_merged_def spec_backfill_empty)

lemma side_row_Nil: "side_row [] code = Map.empty"
  by (simp add: side_row_def)

lemma merge_data_lists:
  assumes "set_order order (all_codes energy_data nutrient_data)"
  shows "map map_of (fst (merge_data order energy_data nutrient_data)) =
           map (\<lambda>code. spec_merged (side_row energy_data code) (side_row nutrient_data code))
             (filter (\<lambda>code. identified (spec_merged (side_row energy_data code) (side_row nutrient_data code)))
                (order (all_codes energy_data nutrient_data)))"
    and "map map_of (snd (merge_data order energy_data nutrient_data)) =
           map (\<lambda>code. spec_merged (side_row energy_data code) (side_row nutrient_data code))
             (filter (\<lambda>code. \<not> identified (spec_merged (side_row energy_data code) (side_row nutrient_data code)))
                (order (all_codes energy_data nutrient_data)))"
proof -
  let ?codes = "order (all_codes energy_data nutrient_data)"
  let ?E = "\<lambda>code. dict_get (dict_by_code energy_data) code []"
  let ?N = "\<lambda>code. dict_get (dict_by_code nutrient_data) code []"
  let ?S = "\<lambda>code. spec_merged (side_row energy_data code) (side_row nutrient_data code)"
  let ?R = "\<lambda>code. merged_record (merge_item (?E code) (?N code))"
  let ?results = "map (\<lambda>code. merge_item (?E code) (?N code)) ?codes"
  have codes: "set ?codes = side_codes energy_data \<union> side_codes nutrient_data"
    using assms by (simp add: set_order_set all_codes_side_codes)
  have nonempty: "code \<noteq> []" if "code \<in> set ?codes" for code
    using that unfolding codes by (auto simp: side_codes_def)
  have rows: "map_of (?E code) = side_row energy_data code \<and> map_of (?N code) = side_row nutrient_data code"
    if "code \<in> set ?codes" for code
    using nonempty[OF that] by (simp add: row_of_dict_by_code)
  have item: "merge_item (?E code) (?N code) =
      (if identified (?S code) then Inr (?R code) else Inl (?R code))"
    and mrec: "map_of (?R code) = ?S code"
    if "code \<in> set ?codes" for code
    using merge_item_cases[of "?E code" "?N code"] rows[OF that] by auto
  have results: "?results = map (\<lambda>code. if identified (?S code) then Inr (?R code) else Inl (?R code)) ?codes"
    by (rule map_cong[OF refl]) (rule item)
  have whole: "merge_data order energy_data nutrient_data = (rights ?results, lefts ?results)"
  proof (cases "energy_data = [] \<and> nutrient_data = []")
    case True
    then have "side_codes energy_data \<union> side_codes nutrient_data = {}"
      by (simp add: side_codes_def)
    with codes have "?codes = []" by simp
    with True show ?thesis
      by (simp add: merge_data_def rights_def lefts_def)
  next
    case False
    then have cond: "(energy_data = [] \<and> nutrient_data = []) = False"
      by simp
    show ?thesis
      by (simp only: merge_data_def Let_def cond if_False merge_code_def[abs_def])
  qed
  show "map map_of (fst (merge_data order energy_data nutrient_data)) =
      map ?S (filter (\<lambda>code. identified (?S code)) ?codes)"
    unfolding whole results rights_map_if fst_conv map_map
    by (rule map_cong[OF refl]) (simp add: mrec)
  show "map map_of (snd (merge_data order energy_data nutrient_data)) =
      map ?S (filter (\<lambda>code. \<not> identified (?S code)) ?codes)"
    unfolding whole results lefts_map_if snd_conv map_map
    by (rule map_cong[OF refl]) (simp add: mrec)
qed

lemma set_order_rev: "set_order rev xs"
  by (simp add: set_order_def)

lemma merged_rows:
  assumes "set_order order (all_codes energy_data nutrient_data)"
    and "r \<in> set (fst (merge_data order energy_data nutrient_data))"
  obtains code where "code \<in> side_codes energy_data \<union> side_codes nutrient_data"
    and "map_of r = spec_merged (side_row energy_data code) (side_row nutrient_data code)"
    and "identified (map_of r)"
proof -
  from assms(2) have "map_of r \<in> set (map map_of (fst (merge_data order energy_data nutrient_data)))"
    by simp
  then obtain code where "code \<in> set (order (all_codes energy_data nutrient_data))"
    and "map_of r = spec_merged (side_row energy_data code) (side_row nutrient_data code)"
    and "identified (map_of r)"
    unfolding merge_data_lists(1)[OF assms(1)] by auto
  moreover have "set (order (all_codes energy_data nutrient_data)) =
      side_codes energy_data \<union> side_codes nutrient_data"
    using assms(1) by (simp add: set_order_set all_codes_side_codes)
  ultimately show ?thesis using that by simp
qed

section \<open>Claims about the merge\<close>

text \<open>
  C1. For every energy-side and nutrient-side row list, and whatever order the codes are
  visited in: the codes visited are the union of the two key sets (the non-empty food
  codes of each side), each once; the records emitted are, in that order, the merged
  records of the codes whose merged record has both \<open>foodCode\<close> and \<open>foodName\<close>, and
  the records dropped with a warning are the merged records of the other codes; the
  merged record is the one the specification words (\<open>spec_merged\<close>: energy row on the
  energy schema, overlaid with the nutrient row on the nutrient schema without the
  identity fields, then backfilled from the nutrient row). With an empty nutrient-side
  list, every emitted record has only energy-schema fields, and has \<open>foodCode\<close> and
  \<open>foodName\<close>.
\<close>

theorem merge_data_refines_spec:
  assumes "set_order order (all_codes energy_data nutrient_data)"
  shows "set (order (all_codes energy_data nutrient_data)) =
           side_codes energy_data \<union> side_codes nutrient_data \<and>
         distinct (order (all_codes energy_data nutrient_data)) \<and>
         map map_of (fst (merge_data order energy_data nutrient_data)) =
           map (\<lambda>code. spec_merged (side_row energy_data code) (side_row nutrient_data code))
             (filter (\<lambda>code. identified (spec_merged (side_row energy_data code) (side_row nutrient_data code)))
                (order (all_codes energy_data nutrient_data))) \<and>
         map map_of (snd (merge_data order energy_data nutrient_data)) =
           map (\<lambda>code. spec_merged (side_row energy_data code) (side_row nutrient_data code))
             (filter (\<lambda>code. \<not> identified (spec_merged (side_row energy_data code) (side_row nutrient_data code)))
                (order (all_codes energy_data nutrient_data))) \<and>
         (nutrient_data = [] \<longrightarrow>
            (\<forall>r \<in> set (fst (merge_data order energy_data nutrient_data)).
               fst ` set r \<subseteq> set energy_cols \<and> dict_has r foodCode \<and> dict_has r foodName))"
proof (intro conjI impI ballI)
  show "set (order (all_codes energy_data nutrient_data)) =
      side_codes energy_data \<union> side_codes nutrient_data"
    using assms by (simp add: set_order_set all_codes_side_codes)
next
  show "distinct (order (all_codes energy_data nutrient_data))"
    using assms by (simp add: set_order_distinct all_codes_def)
next
  fix r
  assume empty: "nutrient_data = []"
    and r: "r \<in> set (fst (merge_data order energy_data nutrient_data))"
  from assms r obtain code where
    row: "map_of r = spec_merged (side_row energy_data code) (side_row nutrient_data code)"
    and ident: "identified (map_of r)"
    by (rule merged_rows)
  from row empty have "map_of r = side_row energy_data code |` set energy_cols"
    by (simp add: side_row_Nil spec_merged_energy_only)
  then have "dom (map_of r) \<subseteq> set energy_cols"
    by simp
  then show "fst ` set r \<subseteq> set energy_cols"
    by (simp add: dom_map_of_conv_image_fst)
  from ident show "dict_has r foodCode" and "dict_has r foodName"
    by (simp_all add: identified_map_of)
qed (rule merge_data_lists[OF assms])+

theorem merge_data_refines_spec_witness:
  "set (rev (all_codes energy_sample nutrient_sample)) =
     side_codes energy_sample \<union> side_codes nutrient_sample \<and>
   map map_of (fst (merge_data rev energy_sample nutrient_sample)) =
     map (\<lambda>code. spec_merged (side_row energy_sample code) (side_row nutrient_sample code))
       (filter (\<lambda>code. identified (spec_merged (side_row energy_sample code) (side_row nutrient_sample code)))
          (rev (all_codes energy_sample nutrient_sample)))"
proof -
  have h: "set_order rev (all_codes energy_sample nutrient_sample)"
    by (rule set_order_rev)
  show ?thesis
    using merge_data_refines_spec[OF h] by blast
qed

lemma merge_data_sample:
  "merge_data rev energy_sample nutrient_sample =
     ([[(foodCode, u ''1''), (u ''water'', u ''3''), (u ''Ca'', u ''9''), (foodName, u ''x'')],
       [(foodCode, u ''2''), (foodName, u ''b'')]],
      [[(u ''Ca'', u ''9''), (foodCode, u ''3'')]])"
  by code_simp

text \<open>
  C6, as amended. Every record emitted by the pair merge has a non-empty \<open>foodCode\<close>
  value and has the key \<open>foodName\<close>; the value of \<open>foodName\<close> may be the empty
  string.
\<close>

theorem merge_data_identity_fields:
  assumes "set_order order (all_codes energy_data nutrient_data)"
  shows "\<forall>r \<in> set (fst (merge_data order energy_data nutrient_data)).
           dict_get r foodCode [] \<noteq> [] \<and> dict_has r foodName"
proof
  fix r
  assume "r \<in> set (fst (merge_data order energy_data nutrient_data))"
  with assms obtain code where
    code: "code \<in> side_codes energy_data \<union> side_codes nutrient_data"
    and row: "map_of r = spec_merged (side_row energy_data code) (side_row nutrient_data code)"
    and ident: "identified (map_of r)"
    by (rule merged_rows)
  from code have "code \<noteq> []"
    by (auto simp: side_codes_def)
  moreover from code row have "map_of r foodCode = Some code"
    by (simp add: spec_merged_code)
  ultimately have "dict_get r foodCode [] \<noteq> []"
    by (simp add: dict_get_def)
  with ident show "dict_get r foodCode [] \<noteq> [] \<and> dict_has r foodName"
    by (simp add: identified_map_of)
qed

theorem merge_data_identity_fields_witness:
  "fst (merge_data rev energy_sample nutrient_sample) \<noteq> [] \<and>
   list_all (\<lambda>r. dict_get r foodCode [] \<noteq> [] \<and> dict_has r foodName)
     (fst (merge_data rev energy_sample nutrient_sample))"
proof -
  have h: "set_order rev (all_codes energy_sample nutrient_sample)"
    by (rule set_order_rev)
  have "fst (merge_data rev energy_sample nutrient_sample) \<noteq> []"
    by (simp add: merge_data_sample)
  then show ?thesis
    using merge_data_identity_fields[OF h] by (simp add: list_all_iff)
qed

text \<open>
  C6 as stated fails: an energy row with code 1 and an empty name is emitted with its
  empty \<open>foodName\<close> value.
\<close>

theorem merge_data_empty_name_counterexample:
  "fst (merge_data rev [[(foodCode, u ''1''), (foodName, [])]] []) =
     [[(foodCode, u ''1''), (foodName, [])]] \<and>
   dict_get [(foodCode, u ''1''), (foodName, [])] foodName (u ''absent'') = []"
  by code_simp

section \<open>Evaluating the matcher\<close>

text \<open>
  On a concrete subject the simplifier runs the matcher as \<^verbatim>\<open>re\<close> does: with this
  congruence rule it rewrites the pattern and the rest of the subject, and leaves a
  continuation alone until the matcher calls it.
\<close>

lemma rx_cong: "p = p' \<Longrightarrow> r = r' \<Longrightarrow> rx p s r c k = rx p' s r' c k"
  by simp

lemmas fence_eval =
  extract_markdown_table_def re_fullmatch_def fence_pattern_def Seqs_def Str_def Lit_def Opt_def
  u_def is_space_def any_char_def strip_def group_str_def no_groups_def

section \<open>Claims about the code fence\<close>

text \<open>
  The fences the pattern lists are stripped, and unfenced text is only stripped of white
  space.
\<close>

lemma extract_markdown_table_lower:
  "extract_markdown_table (u ''```markdown'' @ [10] @ u ''| a |'' @ [10] @ u ''```'') = u ''| a |''"
  by (simp add: fence_eval cong: rx_cong)

lemma extract_markdown_table_plain:
  "extract_markdown_table (u ''```'' @ [10] @ u ''| a |```'') = u ''| a |''"
  by (simp add: fence_eval cong: rx_cong)

lemma extract_markdown_table_unfenced:
  "extract_markdown_table (u ''  | a |  '') = u ''| a |''"
  by (simp add: fence_eval cong: rx_cong)

text \<open>
  C9, at the failing input. The response is the table \<^verbatim>\<open>| a |\<close> between a fence spelled
  \<^verbatim>\<open>```Markdown\<close> and a closing fence. The pattern lists the spellings markdown,
  MARKDOWN, md and MD only, so the word Markdown is taken for table content and stays in
  the result.
\<close>

theorem extract_markdown_table_mixed_case:
  "extract_markdown_table (u ''```Markdown'' @ [10] @ u ''| a |'' @ [10] @ u ''```'') =
     u ''Markdown'' @ [10] @ u ''| a |''"
  by (simp add: fence_eval cong: rx_cong)

section \<open>Claims about the categories\<close>

lemmas cat_eval = extract_category_from_filename_def re_match_def numbered_category_pattern_def
  category_pattern_def role_suffix_def Seqs_def Str_def Lit_def Plus_def u_def not_newline_def
  is_decimal_def group_str_def no_groups_def ascii_decimal

lemma set_order_single: "set_order order [x] \<Longrightarrow> order [x] = [x]"
  by (cases "order [x]") (auto simp: set_order_def)

lemma collect_files_pair:
  "collect_files [(root, [u ''beef-1-energy.png'', u ''beef-1-nutrient.png''])] =
     ([(u ''beef-1'', (root, u ''beef-1-energy.png''))],
      [(u ''beef-1'', (root, u ''beef-1-nutrient.png''))])"
  by (simp add: collect_files_def file_role_def endswith_def startswith_def u_def)

text \<open>
  C7, at the failing input. The directory holds the pair \<^verbatim>\<open>beef-1-energy.png\<close> and
  \<^verbatim>\<open>beef-1-nutrient.png\<close>. \<^verbatim>\<open>process_directory\<close> hands the base name
  \<^verbatim>\<open>beef-1\<close>, from which the role suffix is already removed, to
  \<^verbatim>\<open>extract_category_from_filename\<close>: neither pattern matches a name without a role
  suffix, so the category is the stem \<^verbatim>\<open>beef-1\<close>. On the file name of the pair the
  pattern \<^verbatim>\<open>name-digits-energy\<close> matches, and the function gives \<^verbatim>\<open>beef\<close>, as the
  claim says.
\<close>

theorem discover_pairs_category:
  assumes "ascii_standard R" and "path_stem R (u ''beef-1'') = u ''beef-1''"
    and "set_order order [u ''beef-1'']"
  shows "discover_pairs R order [(root, [u ''beef-1-energy.png'', u ''beef-1-nutrient.png''])] =
           ([((root, u ''beef-1-energy.png''), (root, u ''beef-1-nutrient.png''), u ''beef-1'')],
            [(u ''beef-1'', u ''beef-1'')]) \<and>
         extract_category_from_filename R (u ''beef-1-energy.png'') = u ''beef''"
proof
  have names: "order (common_names [(u ''beef-1'', (root, u ''beef-1-energy.png''))]
      [(u ''beef-1'', (root, u ''beef-1-nutrient.png''))]) = [u ''beef-1'']"
    using set_order_single[OF assms(3)] by (simp add: common_names_def dict_keys_def dict_has_def)
  have category: "extract_category_from_filename R (u ''beef-1'') = u ''beef-1''"
    using assms(1) assms(2)[symmetric] by (simp add: cat_eval cong: rx_cong)
  show "discover_pairs R order [(root, [u ''beef-1-energy.png'', u ''beef-1-nutrient.png''])] =
      ([((root, u ''beef-1-energy.png''), (root, u ''beef-1-nutrient.png''), u ''beef-1'')],
       [(u ''beef-1'', u ''beef-1'')])"
    by (simp add: discover_pairs_def collect_files_pair names category pair_of_def dict_get_def)
  show "extract_category_from_filename R (u ''beef-1-energy.png'') = u ''beef''"
    using assms(1) by (simp add: cat_eval cong: rx_cong)
qed

theorem discover_pairs_category_witness:
  "discover_pairs latin1_runtime (\<lambda>names. names)
       [(u ''images'', [u ''beef-1-energy.png'', u ''beef-1-nutrient.png''])] =
     ([((u ''images'', u ''beef-1-energy.png''), (u ''images'', u ''beef-1-nutrient.png''), u ''beef-1'')],
      [(u ''beef-1'', u ''beef-1'')]) \<and>
   extract_category_from_filename latin1_runtime (u ''beef-1-energy.png'') = u ''beef''"
proof -
  have "path_stem latin1_runtime (u ''beef-1'') = u ''beef-1''"
    by (simp add: latin1_runtime_def bare_name_stem_def u_def)
  moreover have "set_order (\<lambda>names. names) [u ''beef-1'']"
    by (simp add: set_order_def)
  ultimately show ?thesis
    using ascii_standard_latin1 by (rule discover_pairs_category[rotated 1])
qed

section \<open>Facts about the retry loop\<close>

lemma attempts_append: "attempts (a @ b) = attempts a + attempts b"
  by (simp add: attempts_def)


lemma attempts_schedule_step: "attempts (schedule_step k) = 1"
  by (simp add: attempts_def schedule_step_def)

lemma schedule_from_0: "schedule_from k 0 = []"
  by (simp add: schedule_from_def)

lemma schedule_from_Suc: "schedule_from k (Suc n) = schedule_step k @ schedule_from (Suc k) n"
  by (simp add: schedule_from_def upt_conv_Cons del: upt_Suc)












lemma attempts_schedule_from: "attempts (schedule_from k n) = n"
  by (induction n arbitrary: k) (simp_all add: schedule_from_0 schedule_from_Suc attempts_append
        attempts_schedule_step, simp add: attempts_def)






lemma retry_loop_again:
  "int k \<le> max_retries \<Longrightarrow>
   try_once R W max_retries failed_dir image_path is_energy k = (events, Inl e) \<Longrightarrow>
   format_ints R [int k + 1, max_retries] = None \<Longrightarrow>
     retry_loop R W max_retries failed_dir image_path is_energy k last_error =
       (events @ fst (retry_loop R W max_retries failed_dir image_path is_energy (Suc k) (Some e)),
        snd (retry_loop R W max_retries failed_dir image_path is_energy (Suc k) (Some e)))"
  by (subst retry_loop.simps) (simp del: format_ints.simps split: prod.split)



text \<open>A run of failed attempts, each after its sleep.\<close>

lemma try_once_failure:
  "k = 0 \<or> backoff R W max_retries k = ([Slept (5 ^ k)], None) \<Longrightarrow>
   attempt W k image_path is_energy = Inl e \<Longrightarrow>
     try_once R W max_retries failed_dir image_path is_energy k = (schedule_step k, Inl e)"
  by (auto simp: try_once_def schedule_step_def backoff_def)

lemma try_once_success:
  "k = 0 \<or> backoff R W max_retries k = ([Slept (5 ^ k)], None) \<Longrightarrow>
   attempt W k image_path is_energy = Inr result \<Longrightarrow>
   error_exists W k = Inr present \<Longrightarrow>
     try_once R W max_retries failed_dir image_path is_energy k =
       (schedule_step k @
          (if present \<and> error_removed W k = None then [Removed (error_file R failed_dir image_path)] else []),
        Inr result)"
  by (auto simp: try_once_def schedule_step_def backoff_def clear_error_def)

lemma retry_loop_failures:
  assumes "\<forall>j. k \<le> j \<and> j < n \<longrightarrow>
             try_once R W max_retries failed_dir image_path is_energy j = (schedule_step j, Inl (err j)) \<and>
             format_ints R [int j + 1, max_retries] = None"
    and "k \<le> n" and "int n \<le> max_retries + 1"
  shows "retry_loop R W max_retries failed_dir image_path is_energy k last_error =
           (schedule_from k (n - k) @
              fst (retry_loop R W max_retries failed_dir image_path is_energy n
                     (if k < n then Some (err (n - 1)) else last_error)),
            snd (retry_loop R W max_retries failed_dir image_path is_energy n
                   (if k < n then Some (err (n - 1)) else last_error)))"
  using assms
proof (induction "n - k" arbitrary: k last_error)
  case 0
  then have "k = n" by simp
  then show ?case by (simp add: schedule_from_0)
next
  case (Suc d)
  from Suc(2) have less: "k < n" and d: "d = n - Suc k" by simp_all
  from less Suc(5) have bound: "int k \<le> max_retries" by simp
  from Suc(3) less
  have once: "try_once R W max_retries failed_dir image_path is_energy k = (schedule_step k, Inl (err k))"
    and message: "format_ints R [int k + 1, max_retries] = None"
    by simp_all
  have rest: "\<forall>j. Suc k \<le> j \<and> j < n \<longrightarrow>
      try_once R W max_retries failed_dir image_path is_energy j = (schedule_step j, Inl (err j)) \<and>
      format_ints R [int j + 1, max_retries] = None"
    using Suc(3) by simp
  from less have le: "Suc k \<le> n" by simp
  have "n = Suc k" if "\<not> Suc k < n"
    using that less by simp
  then have last: "(if Suc k < n then Some (err (n - 1)) else Some (err k)) = Some (err (n - 1))"
    by (cases "Suc k < n") simp_all
  have steps: "schedule_from k (n - k) = schedule_step k @ schedule_from (Suc k) (n - Suc k)"
    using less schedule_from_Suc[of k "n - Suc k"] by (simp add: Suc_diff_Suc)
  note later = Suc(1)[OF d rest le Suc(5), of "Some (err k)", unfolded last]
  show ?case
    by (subst retry_loop_again[OF bound once message], subst (1 2) later) (simp add: less steps)
qed

section \<open>Claims about the retry loop\<close>

lemmas retry_eval =
  process_image_with_retry_def retry_loop.simps try_once_def backoff_def clear_error_def
  record_error_def error_file_def str_int_def str_error_def over_limit_def latin1_runtime_def
  bare_name_stem_def u_def Let_def


lemma third_time_unlucky_run:
  "process_image_with_retry latin1_runtime third_time_lucky 1 (u ''failed'')
     (u ''images'', u ''beef-1-energy.png'') True =
     ([Attempt, Slept 5, Attempt, Opened (u ''failed'', u ''beef-1-energy_error.txt''),
       Written (u ''failed'', u ''beef-1-energy_error.txt'') (u ''Error after 1 retries: timeout'')],
      Inr [])"
  by (simp add: retry_eval third_time_lucky_def)




end
